theory Spec2Isabelle
  imports Main
begin

section \<open>Values handed to the construct functions\<close>

text \<open>
  The repository is a library of functions that assemble resource declarations on top of a
  provisioning SDK. Each function receives a scope (the construct under which it declares
  resources) and the objects it works on, calls constructors and grant methods of the SDK, and
  returns the declarations it made. The model follows that shape: a scope is a record of what
  has been declared under it so far, every constructor or grant call of the source appends to
  it, and every function returns the updated scope next to its result.
\<close>

text \<open>
  Modelled from the spec: the enum \<open>PermissionModel\<close> is imported by the source from the
  \<open>utils\<close> module, whose declaration is absent; the spec lists its three values.
\<close>

datatype PermissionModel = IAM | HYBRID | LAKE_FORMATION

text \<open>The environment of the enclosing stack, read through \<open>Stack.of(scope)\<close>.\<close>

record Stack =
  stackPartition :: string
  stackRegion :: string
  stackAccount :: string

text \<open>
  What a role does with a policy statement that a grant asks it to take
  (\<open>addToPrincipalPolicy\<close>): a role declared in the template, or imported as mutable,
  attaches it; a role imported with \<open>mutable: false\<close> attaches nothing, and reports the
  statement as added unless it was imported with \<open>addGrantsToResources: true\<close>, in which
  case it reports that it was not.
\<close>

datatype PolicyMode = Attaches | Pretends | Refuses

text \<open>The SDK interfaces, reduced to the attributes the source reads.\<close>

record IRole =
  roleArn :: string
  policyMode :: PolicyMode

record IUser =
  userArn :: string

record ISamlProvider =
  samlProviderArn :: string

record IBucket =
  bucketArn :: string

record IFunction =
  functionArn :: string
  role :: "IRole option"

text \<open>
  The union type \<open>IRole | IUser | [ISamlProvider, string]\<close> of the admin grantor's
  \<open>principal\<close> parameter.
\<close>

datatype principal =
    RolePrincipal IRole
  | UserPrincipal IUser
  | SamlPrincipal ISamlProvider string

text \<open>Object literals that the source passes on verbatim.\<close>

datatype json =
    JString string
  | JNumber int
  | JBool bool
  | JArray "json list"
  | JObject "(string \<times> json) list"

datatype RemovalPolicy = DESTROY | RETAIN | SNAPSHOT | RETAIN_ON_UPDATE_OR_DELETE

datatype Effect = ALLOW | DENY

text \<open>What the source can throw: \<open>new Error(msg)\<close>, or the runtime's \<open>TypeError\<close>.\<close>

datatype error = Error string | TypeError string

section \<open>Declarations\<close>

text \<open>
  What a grant method of the SDK is asked for: which method, on which object, for which
  grantee. The \<open>Grant\<close> object that the method returns carries these options and the flag
  \<open>success\<close>, which says whether a policy statement stands for the grant, on the grantee
  or on the resource.
\<close>

datatype GrantOptions =
    GrantReadWrite IBucket IRole string
  | GrantInvoke IFunction IRole
  | GrantAssumeRole IRole IRole

record Grant =
  options :: GrantOptions
  success :: bool

datatype PrincipalBase = ServicePrincipal string

record RoleProps =
  assumedBy :: PrincipalBase

record FromRoleArnOptions =
  mutable :: bool
  addGrantsToResources :: bool

text \<open>
  Properties of the Lake Formation \<open>CfnResource\<close>; \<open>locationRoleArn\<close> is the property the
  source writes as \<open>roleArn\<close>.
\<close>

record CfnResourceProps =
  hybridAccessEnabled :: bool
  useServiceLinkedRole :: bool
  locationRoleArn :: string
  resourceArn :: string

record DataLakePrincipal =
  dataLakePrincipalIdentifier :: string

record CfnDataLakeSettingsProps =
  admins :: "DataLakePrincipal list"
  mutationType :: string
  parameters :: "json option"

record DataLocationResource =
  catalogId :: string
  s3Resource :: string

record PermissionsResource =
  dataLocationResource :: DataLocationResource

record CfnPermissionsProps =
  permissions :: "string list"
  permissionsWithGrantOption :: "string list"
  dataLakePrincipal :: DataLakePrincipal
  resource :: PermissionsResource

text \<open>
  \<open>sdkParameters\<close> is the \<open>parameters\<close> key of the SDK call; \<open>crRemovalPolicy\<close> and
  \<open>crRole\<close> are the \<open>removalPolicy\<close> and \<open>role\<close> keys of the custom resource.
\<close>

record AwsSdkCall =
  service :: string
  action :: string
  sdkParameters :: json
  physicalResourceId :: string

record PolicyStatement =
  actions :: "string list"
  effect :: Effect
  resources :: "string list"

record AwsCustomResourceProps =
  crRemovalPolicy :: RemovalPolicy
  crRole :: IRole
  onCreate :: AwsSdkCall
  policy :: "PolicyStatement list"
  logRetention :: nat
  timeout :: nat

datatype construct_decl =
    Role RoleProps
  | ImportedRole string FromRoleArnOptions
  | CfnResource CfnResourceProps
  | CfnDataLakeSettings CfnDataLakeSettingsProps
  | CfnPermissions CfnPermissionsProps
  | AwsCustomResource AwsCustomResourceProps

text \<open>
  The nodes of the resource graph are the declared constructs, named by their id under the
  scope, and the grants, named by their options. An edge \<open>(d, p)\<close> says that \<open>d\<close>
  depends on \<open>p\<close>. The field \<open>grants\<close> of a scope lists the grants for which a policy
  statement has been added to the template.
\<close>

datatype node = ConstructNode string | GrantNode GrantOptions

record Construct =
  stack :: Stack
  children :: "(string \<times> construct_decl) list"
  grants :: "GrantOptions list"
  dependencies :: "(node \<times> node) list"

section \<open>The SDK calls the source makes\<close>

text \<open>
  Each definition records the call in the scope and returns what the source reads from the
  SDK's return value. The SDK's own checks (such as the uniqueness of construct ids under a
  scope) belong to the SDK and are not part of the repository.
\<close>

definition Stack_of :: "Construct \<Rightarrow> Stack" where
  "Stack_of scope = stack scope"

definition add_child :: "Construct \<Rightarrow> string \<Rightarrow> construct_decl \<Rightarrow> Construct" where
  "add_child scope ident d = scope\<lparr>children := children scope @ [(ident, d)]\<rparr>"

text \<open>
  The ARN of a role declared in the template is known at deployment only; at synthesis it is
  a reference to the attribute \<open>Arn\<close> of the declared construct.
\<close>

definition attrArn :: "string \<Rightarrow> string" where
  "attrArn ident = ''${'' @ ident @ ''.Arn}''"

definition new_Role :: "Construct \<Rightarrow> string \<Rightarrow> RoleProps \<Rightarrow> Construct \<times> IRole" where
  "new_Role scope ident props = (add_child scope ident (Role props),
      \<lparr>roleArn = attrArn ident, policyMode = Attaches\<rparr>)"

definition Role_fromRoleArn ::
  "Construct \<Rightarrow> string \<Rightarrow> string \<Rightarrow> FromRoleArnOptions \<Rightarrow> Construct \<times> IRole" where
  "Role_fromRoleArn scope ident arn opts =
     (add_child scope ident (ImportedRole arn opts),
      \<lparr>roleArn = arn,
       policyMode =
         (if mutable opts then Attaches
          else if addGrantsToResources opts then Refuses else Pretends)\<rparr>)"

definition new_CfnResource ::
  "Construct \<Rightarrow> string \<Rightarrow> CfnResourceProps \<Rightarrow> Construct \<times> CfnResourceProps" where
  "new_CfnResource scope ident props = (add_child scope ident (CfnResource props), props)"

definition new_CfnDataLakeSettings ::
  "Construct \<Rightarrow> string \<Rightarrow> CfnDataLakeSettingsProps \<Rightarrow> Construct \<times> CfnDataLakeSettingsProps" where
  "new_CfnDataLakeSettings scope ident props =
     (add_child scope ident (CfnDataLakeSettings props), props)"

definition new_CfnPermissions ::
  "Construct \<Rightarrow> string \<Rightarrow> CfnPermissionsProps \<Rightarrow> Construct \<times> CfnPermissionsProps" where
  "new_CfnPermissions scope ident props = (add_child scope ident (CfnPermissions props), props)"

definition new_AwsCustomResource ::
  "Construct \<Rightarrow> string \<Rightarrow> AwsCustomResourceProps \<Rightarrow> Construct \<times> AwsCustomResourceProps" where
  "new_AwsCustomResource scope ident props =
     (add_child scope ident (AwsCustomResource props), props)"

text \<open>
  \<open>Grant.addToPrincipal\<close> asks the grantee to take the statement and does nothing else;
  the grant has succeeded when the grantee reports the statement as added.
  \<open>Grant.addToPrincipalOrResource\<close> asks the grantee first and, when the grantee reports
  that it has not added the statement, puts the statement on the policy of the resource.
\<close>

definition Grant_addToPrincipal :: "Construct \<Rightarrow> IRole \<Rightarrow> GrantOptions \<Rightarrow> Construct \<times> Grant" where
  "Grant_addToPrincipal scope grantee opts =
     (case policyMode grantee of
        Attaches \<Rightarrow> (scope\<lparr>grants := grants scope @ [opts]\<rparr>, \<lparr>options = opts, success = True\<rparr>)
      | Pretends \<Rightarrow> (scope, \<lparr>options = opts, success = True\<rparr>)
      | Refuses \<Rightarrow> (scope, \<lparr>options = opts, success = False\<rparr>))"

definition Grant_addToPrincipalOrResource ::
  "Construct \<Rightarrow> IRole \<Rightarrow> GrantOptions \<Rightarrow> Construct \<times> Grant" where
  "Grant_addToPrincipalOrResource scope grantee opts =
     (case policyMode grantee of
        Attaches \<Rightarrow> (scope\<lparr>grants := grants scope @ [opts]\<rparr>, \<lparr>options = opts, success = True\<rparr>)
      | Pretends \<Rightarrow> (scope, \<lparr>options = opts, success = True\<rparr>)
      | Refuses \<Rightarrow> (scope\<lparr>grants := grants scope @ [opts]\<rparr>, \<lparr>options = opts, success = True\<rparr>))"

text \<open>
  The grant methods the source calls: \<open>grantReadWrite\<close> of a bucket and \<open>grantInvoke\<close>
  of a function can fall back on the policy of the resource; \<open>grantAssumeRole\<close> of a role
  asks the grantee only.
\<close>

definition grantReadWrite :: "Construct \<Rightarrow> IBucket \<Rightarrow> IRole \<Rightarrow> string \<Rightarrow> Construct \<times> Grant" where
  "grantReadWrite scope bucket identity objectsKeyPattern =
     Grant_addToPrincipalOrResource scope identity
       (GrantReadWrite bucket identity objectsKeyPattern)"

definition grantInvoke :: "Construct \<Rightarrow> IFunction \<Rightarrow> IRole \<Rightarrow> Construct \<times> Grant" where
  "grantInvoke scope fn grantee =
     Grant_addToPrincipalOrResource scope grantee (GrantInvoke fn grantee)"

definition grantAssumeRole :: "Construct \<Rightarrow> IRole \<Rightarrow> IRole \<Rightarrow> Construct \<times> Grant" where
  "grantAssumeRole scope r identity =
     Grant_addToPrincipal scope identity (GrantAssumeRole r identity)"

definition addDependency :: "Construct \<Rightarrow> node \<Rightarrow> node \<Rightarrow> Construct" where
  "addDependency scope dependent prerequisite =
     scope\<lparr>dependencies := dependencies scope @ [(dependent, prerequisite)]\<rparr>"

definition arnForObjects :: "IBucket \<Rightarrow> string \<Rightarrow> string" where
  "arnForObjects bucket keyPattern = bucketArn bucket @ ''/'' @ keyPattern"

text \<open>
  \<open>Arn.format(components, stack)\<close>: the components the caller leaves out are taken from
  the stack.
\<close>

record ArnComponents =
  arnPartition :: "string option"
  arnService :: string
  arnRegion :: "string option"
  arnAccount :: "string option"
  arnResource :: string
  arnResourceName :: "string option"

definition orElse :: "string option \<Rightarrow> string \<Rightarrow> string" where
  "orElse v d = (case v of None \<Rightarrow> d | Some s \<Rightarrow> s)"

definition Arn_format :: "ArnComponents \<Rightarrow> Stack \<Rightarrow> string" where
  "Arn_format c st =
     ''arn:'' @ orElse (arnPartition c) (stackPartition st) @ '':'' @ arnService c @ '':''
       @ orElse (arnRegion c) (stackRegion st) @ '':'' @ orElse (arnAccount c) (stackAccount st)
       @ '':'' @ arnResource c
       @ (case arnResourceName c of None \<Rightarrow> [] | Some n \<Rightarrow> ''/'' @ n)"

section \<open>Location registrar\<close>

definition registerS3Location ::
  "Construct \<Rightarrow> string \<Rightarrow> IBucket \<Rightarrow> string \<Rightarrow> PermissionModel option
     \<Rightarrow> Construct \<times> (IRole \<times> CfnResourceProps)" where
  "registerS3Location scope ident locationBucket locationPrefix accessMode =
     (let (scope1, lfDataAccessRole) =
            new_Role scope (ident @ ''DataAccessRole'')
              \<lparr>assumedBy = ServicePrincipal ''lakeformation.amazonaws.com''\<rparr>;
          (scope2, grantRead) =
            grantReadWrite scope1 locationBucket lfDataAccessRole locationPrefix;
          (scope3, dataLakeLocation) =
            new_CfnResource scope2 (ident @ ''DataLakeLocation'')
              \<lparr>hybridAccessEnabled = (if accessMode = Some HYBRID then True else False),
               useServiceLinkedRole = False,
               locationRoleArn = roleArn lfDataAccessRole,
               resourceArn = arnForObjects locationBucket locationPrefix\<rparr>;
          scope4 =
            addDependency scope3 (ConstructNode (ident @ ''DataLakeLocation''))
              (GrantNode (options grantRead))
      in (scope4, (lfDataAccessRole, dataLakeLocation)))"

section \<open>Legacy-permission remover and access grantor\<close>

definition removeIamAllowedPrincipal ::
  "Construct \<Rightarrow> string \<Rightarrow> string \<Rightarrow> IRole \<Rightarrow> RemovalPolicy
     \<Rightarrow> Construct \<times> AwsCustomResourceProps" where
  "removeIamAllowedPrincipal scope ident database execRole removalPolicy =
     (let st = Stack_of scope;
          (scope1, cr) =
            new_AwsCustomResource scope ident
              \<lparr>crRemovalPolicy = removalPolicy,
               crRole = execRole,
               onCreate =
                 \<lparr>service = ''LakeFormation'',
                  action = ''RevokePermissions'',
                  sdkParameters =
                    JObject
                      [(''Permissions'', JArray [JString ''ALL'']),
                       (''Principal'',
                        JObject [(''DataLakePrincipalIdentifier'',
                                  JString ''IAM_ALLOWED_PRINCIPALS'')]),
                       (''Resource'',
                        JObject [(''Database'', JObject [(''Name'', JString database)])])],
                  physicalResourceId = database\<rparr>,
               policy =
                 [\<lparr>actions = [''lakeformation:RevokePermissions''],
                   effect = ALLOW,
                   resources =
                     [''arn:'' @ stackPartition st @ '':lakeformation:'' @ stackRegion st @ '':''
                        @ stackAccount st @ '':catalog:'' @ stackAccount st]\<rparr>,
                  \<lparr>actions = [''glue:GetDatabase''],
                   effect = ALLOW,
                   resources =
                     [''arn:'' @ stackPartition st @ '':glue:'' @ stackRegion st @ '':''
                        @ stackAccount st @ '':database/'' @ database,
                      ''arn:'' @ stackPartition st @ '':glue:'' @ stackRegion st @ '':''
                        @ stackAccount st @ '':catalog'']\<rparr>],
               logRetention = 7,
               timeout = 60\<rparr>
      in (scope1, cr))"

definition grantDataLakeLocation ::
  "Construct \<Rightarrow> string \<Rightarrow> string \<Rightarrow> IRole \<Rightarrow> Construct \<times> CfnPermissionsProps" where
  "grantDataLakeLocation scope ident location pr =
     new_CfnPermissions scope ident
       \<lparr>permissions = [''DATA_LOCATION_ACCESS''],
        permissionsWithGrantOption = [],
        dataLakePrincipal = \<lparr>dataLakePrincipalIdentifier = roleArn pr\<rparr>,
        resource =
          \<lparr>dataLocationResource =
             \<lparr>catalogId = stackAccount (Stack_of scope), s3Resource = location\<rparr>\<rparr>\<rparr>"

text \<open>Reading a key of an object literal; \<open>None\<close> is the runtime's \<open>undefined\<close>.\<close>

fun field :: "string \<Rightarrow> json \<Rightarrow> json option" where
  "field k (JObject kvs) = map_of kvs k"
| "field k _ = None"

fun keys :: "json \<Rightarrow> string list" where
  "keys (JObject kvs) = map fst kvs"
| "keys _ = []"

section \<open>Admin grantor\<close>

text \<open>
  The source tells the three kinds of principal apart by probing properties:
  \<open>(principal as IRole).roleArn\<close> is the ARN on a role and \<open>undefined\<close> on a user or on the
  pair; likewise \<open>userArn\<close>; the indices \<open>0\<close> and \<open>1\<close> exist on the pair only. A condition
  \<open>if (v)\<close> on such a value holds when \<open>v\<close> is a string other than the empty one.
\<close>

fun prop_roleArn :: "principal \<Rightarrow> string option" where
  "prop_roleArn (RolePrincipal r) = Some (roleArn r)"
| "prop_roleArn _ = None"

fun prop_userArn :: "principal \<Rightarrow> string option" where
  "prop_userArn (UserPrincipal u) = Some (userArn u)"
| "prop_userArn _ = None"

fun index0 :: "principal \<Rightarrow> ISamlProvider option" where
  "index0 (SamlPrincipal provider n) = Some provider"
| "index0 _ = None"

fun index1 :: "principal \<Rightarrow> string option" where
  "index1 (SamlPrincipal provider n) = Some n"
| "index1 _ = None"

definition truthy :: "string option \<Rightarrow> bool" where
  "truthy v = (case v of None \<Rightarrow> False | Some s \<Rightarrow> s \<noteq> [])"

text \<open>The string a value contributes to a concatenation.\<close>

definition str :: "string option \<Rightarrow> string" where
  "str v = (case v of None \<Rightarrow> ''undefined'' | Some s \<Rightarrow> s)"

text \<open>
  The source holds two functions named \<open>grantLfAdminRole\<close>. \<open>grantLfAdminRole\<close> below is the
  one that sits next to \<open>registerS3Location\<close> and sets \<open>CROSS_ACCOUNT_VERSION\<close>;
  \<open>grantLfAdminRole_cdk\<close> is the one that sits next to \<open>makeCdkLfAdmin\<close> and sets no
  parameters. Reading \<open>samlIdentity[0].samlProviderArn\<close> when index \<open>0\<close> is \<open>undefined\<close>
  throws a \<open>TypeError\<close>; nothing has been declared at that point.
\<close>

definition grantLfAdminRole ::
  "Construct \<Rightarrow> string \<Rightarrow> principal
     \<Rightarrow> Construct \<times> (error + CfnDataLakeSettingsProps)" where
  "grantLfAdminRole scope ident pr =
     (let principalArn =
            (if truthy (prop_roleArn pr) then Inr (str (prop_roleArn pr))
             else if truthy (prop_userArn pr) then Inr (str (prop_userArn pr))
             else (case index0 pr of
                     None \<Rightarrow>
                       Inl (TypeError
                         ''Cannot read properties of undefined (reading 'samlProviderArn')'')
                   | Some provider \<Rightarrow> Inr (samlProviderArn provider @ str (index1 pr))))
      in case principalArn of
           Inl e \<Rightarrow> (scope, Inl e)
         | Inr arn \<Rightarrow>
             (let (scope1, settings) =
                    new_CfnDataLakeSettings scope ident
                      \<lparr>admins = [\<lparr>dataLakePrincipalIdentifier = arn\<rparr>],
                       mutationType = ''APPEND'',
                       parameters = Some (JObject [(''CROSS_ACCOUNT_VERSION'', JNumber 4)])\<rparr>
              in (scope1, Inr settings)))"

definition grantLfAdminRole_cdk ::
  "Construct \<Rightarrow> string \<Rightarrow> principal
     \<Rightarrow> Construct \<times> (error + CfnDataLakeSettingsProps)" where
  "grantLfAdminRole_cdk scope ident pr =
     (let principalArn =
            (if truthy (prop_roleArn pr) then Inr (str (prop_roleArn pr))
             else if truthy (prop_userArn pr) then Inr (str (prop_userArn pr))
             else (case index0 pr of
                     None \<Rightarrow>
                       Inl (TypeError
                         ''Cannot read properties of undefined (reading 'samlProviderArn')'')
                   | Some provider \<Rightarrow> Inr (samlProviderArn provider @ str (index1 pr))))
      in case principalArn of
           Inl e \<Rightarrow> (scope, Inl e)
         | Inr arn \<Rightarrow>
             (let (scope1, settings) =
                    new_CfnDataLakeSettings scope ident
                      \<lparr>admins = [\<lparr>dataLakePrincipalIdentifier = arn\<rparr>],
                       mutationType = ''APPEND'',
                       parameters = None\<rparr>
              in (scope1, Inr settings)))"

section \<open>Cross-account authorizer, environment side\<close>

record AuthorizerEnvironmentWorflow =
  lambdaInvokeGrant :: Grant
  assumeRoleGrant :: Grant

definition authorizerEnvironmentWorkflowSetup ::
  "Construct \<Rightarrow> string \<Rightarrow> IFunction \<Rightarrow> string option
     \<Rightarrow> Construct \<times> (error + AuthorizerEnvironmentWorflow)" where
  "authorizerEnvironmentWorkflowSetup scope authorizerName grantFunction centralAccount =
     (let (scope1, centralAuthorizerRole) =
            Role_fromRoleArn scope ''CentraRole''
              (Arn_format
                 \<lparr>arnPartition = None,
                  arnService = ''iam'',
                  arnRegion = None,
                  arnAccount = centralAccount,
                  arnResource = ''role'',
                  arnResourceName = Some (authorizerName @ ''Role'')\<rparr>
                 (Stack_of scope))
              \<lparr>mutable = False, addGrantsToResources = True\<rparr>
      in case role grantFunction of
           None \<Rightarrow> (scope1, Inl (Error ''grantFunction.role is undefined''))
         | Some grantRole \<Rightarrow>
             (let (scope2, invokeGrant) = grantInvoke scope1 grantFunction centralAuthorizerRole;
                  (scope3, assumeGrant) = grantAssumeRole scope2 grantRole centralAuthorizerRole
              in (scope3, Inr \<lparr>lambdaInvokeGrant = invokeGrant, assumeRoleGrant = assumeGrant\<rparr>)))"

section \<open>Execution orders of a resource graph\<close>

text \<open>
  An execution order runs the nodes one after the other. It respects the graph when every
  node runs after all the nodes it depends on: \<open>valid_order deps before todo\<close> checks the steps
  \<open>todo\<close> that follow the steps \<open>before\<close>.
\<close>

fun valid_order :: "(node \<times> node) list \<Rightarrow> node list \<Rightarrow> node list \<Rightarrow> bool" where
  "valid_order deps before [] = True"
| "valid_order deps before (n # todo) =
     (list_all (\<lambda>e. snd e \<in> set before) (filter (\<lambda>e. fst e = n) deps)
      \<and> valid_order deps (n # before) todo)"

fun isInvokeGrant :: "GrantOptions \<Rightarrow> bool" where
  "isInvokeGrant (GrantInvoke fn grantee) = True"
| "isInvokeGrant _ = False"

fun isAssumeRoleGrant :: "GrantOptions \<Rightarrow> bool" where
  "isAssumeRoleGrant (GrantAssumeRole r identity) = True"
| "isAssumeRoleGrant _ = False"

fun grantee :: "GrantOptions \<Rightarrow> IRole" where
  "grantee (GrantReadWrite bucket identity objectsKeyPattern) = identity"
| "grantee (GrantInvoke fn g) = g"
| "grantee (GrantAssumeRole r identity) = identity"

text \<open>The grants a call added to a scope: those of the scope after it, past those before.\<close>

definition newGrants :: "Construct \<Rightarrow> Construct \<Rightarrow> GrantOptions list" where
  "newGrants scope scope' = drop (length (grants scope)) (grants scope')"

section \<open>The spec's words\<close>

text \<open>
  The canonical identifier of a principal as the spec gives it: the role ARN for a role, the
  user ARN for a user, the SAML provider ARN followed by the mapped name for a SAML identity.
\<close>

fun spec_canonicalIdentifier :: "principal \<Rightarrow> string" where
  "spec_canonicalIdentifier (RolePrincipal r) = roleArn r"
| "spec_canonicalIdentifier (UserPrincipal u) = userArn u"
| "spec_canonicalIdentifier (SamlPrincipal provider n) = samlProviderArn provider @ n"

text \<open>A role or a user that has an ARN, or a SAML identity.\<close>

fun hasArn :: "principal \<Rightarrow> bool" where
  "hasArn (RolePrincipal r) = (roleArn r \<noteq> [])"
| "hasArn (UserPrincipal u) = (userArn u \<noteq> [])"
| "hasArn (SamlPrincipal provider n) = True"

text \<open>
  The error the spec calls \<open>MissingRoleError\<close>: the source throws it as a plain \<open>Error\<close>
  with this message.
\<close>

definition MissingRoleError :: error where
  "MissingRoleError = Error ''grantFunction.role is undefined''"

section \<open>Sample inputs\<close>

definition scope0 :: Construct where
  "scope0 =
     \<lparr>stack = \<lparr>stackPartition = ''aws'', stackRegion = ''eu-west-1'',
               stackAccount = ''111122223333''\<rparr>,
      children = [], grants = [], dependencies = []\<rparr>"

definition scope1 :: Construct where
  "scope1 =
     \<lparr>stack = \<lparr>stackPartition = ''aws'', stackRegion = ''us-east-1'',
               stackAccount = ''111122223333''\<rparr>,
      children = [], grants = [], dependencies = []\<rparr>"

definition scope2 :: Construct where
  "scope2 =
     \<lparr>stack = \<lparr>stackPartition = ''aws-cn'', stackRegion = ''eu-west-1'',
               stackAccount = ''111122223333''\<rparr>,
      children = [], grants = [], dependencies = []\<rparr>"

definition bucket0 :: IBucket where
  "bucket0 = \<lparr>bucketArn = ''arn:aws:s3:::lake''\<rparr>"

definition grantRole0 :: IRole where
  "grantRole0 =
     \<lparr>roleArn = ''arn:aws:iam::111122223333:role/GrantRole'', policyMode = Attaches\<rparr>"

definition grantFunction0 :: IFunction where
  "grantFunction0 =
     \<lparr>functionArn = ''arn:aws:lambda:eu-west-1:111122223333:function:Grant'',
      role = Some grantRole0\<rparr>"

definition roleless0 :: IFunction where
  "roleless0 =
     \<lparr>functionArn = ''arn:aws:lambda:eu-west-1:111122223333:function:Grant'',
      role = None\<rparr>"

section \<open>Properties\<close>

text \<open>What \<open>registerS3Location\<close> returns and declares, in one equation.\<close>

lemma registerS3Location_eq:
  "registerS3Location scope ident locationBucket locationPrefix accessMode =
     (scope\<lparr>children := children scope @
         [(ident @ ''DataAccessRole'',
           Role \<lparr>assumedBy = ServicePrincipal ''lakeformation.amazonaws.com''\<rparr>),
          (ident @ ''DataLakeLocation'',
           CfnResource
             \<lparr>hybridAccessEnabled = (accessMode = Some HYBRID),
              useServiceLinkedRole = False,
              locationRoleArn = attrArn (ident @ ''DataAccessRole''),
              resourceArn = arnForObjects locationBucket locationPrefix\<rparr>)],
        grants := grants scope @
         [GrantReadWrite locationBucket \<lparr>roleArn = attrArn (ident @ ''DataAccessRole''), policyMode = Attaches\<rparr>
            locationPrefix],
        dependencies := dependencies scope @
         [(ConstructNode (ident @ ''DataLakeLocation''),
           GrantNode (GrantReadWrite locationBucket
             \<lparr>roleArn = attrArn (ident @ ''DataAccessRole''), policyMode = Attaches\<rparr> locationPrefix))]\<rparr>,
      (\<lparr>roleArn = attrArn (ident @ ''DataAccessRole''), policyMode = Attaches\<rparr>,
       \<lparr>hybridAccessEnabled = (accessMode = Some HYBRID),
        useServiceLinkedRole = False,
        locationRoleArn = attrArn (ident @ ''DataAccessRole''),
        resourceArn = arnForObjects locationBucket locationPrefix\<rparr>))"
  unfolding registerS3Location_def new_Role_def grantReadWrite_def new_CfnResource_def
    addDependency_def add_child_def Grant_addToPrincipalOrResource_def
  by simp

text \<open>
  C1. For every permission model passed to \<open>registerS3Location\<close>, also when none is given,
  the registered location has hybrid access enabled exactly when the model is \<open>HYBRID\<close>
  (so it is enabled for \<open>HYBRID\<close> and disabled for \<open>IAM\<close>, for \<open>LAKE_FORMATION\<close> and for
  the absent model), and its use-service-linked-role flag is false. The declaration returned
  is the one declared under the scope.
\<close>

theorem registerS3Location_hybrid_flag:
  "hybridAccessEnabled (snd (snd (registerS3Location scope ident b p accessMode)))
     = (accessMode = Some HYBRID)
   \<and> hybridAccessEnabled (snd (snd (registerS3Location scope ident b p (Some HYBRID)))) = True
   \<and> hybridAccessEnabled (snd (snd (registerS3Location scope ident b p (Some IAM)))) = False
   \<and> hybridAccessEnabled (snd (snd (registerS3Location scope ident b p (Some LAKE_FORMATION))))
       = False
   \<and> hybridAccessEnabled (snd (snd (registerS3Location scope ident b p None))) = False
   \<and> useServiceLinkedRole (snd (snd (registerS3Location scope ident b p accessMode))) = False
   \<and> (ident @ ''DataLakeLocation'',
        CfnResource (snd (snd (registerS3Location scope ident b p accessMode))))
       \<in> set (children (fst (registerS3Location scope ident b p accessMode)))"
  by (simp add: registerS3Location_eq)

lemma valid_order_prerequisite:
  "valid_order deps before (pre @ n # post) \<Longrightarrow> (n, p) \<in> set deps \<Longrightarrow> p \<in> set before \<union> set pre"
proof (induction pre arbitrary: before)
  case Nil
  then show ?case by (auto simp: list_all_iff)
next
  case (Cons a pre)
  from Cons.prems(1) have "valid_order deps (a # before) (pre @ n # post)" by simp
  from Cons.IH [OF this Cons.prems(2)] show ?case by auto
qed

text \<open>
  C2. In the graph that \<open>registerS3Location\<close> produces, the registration node of the data
  lake location has a dependency edge on the bucket read-write grant, the grant has been
  issued, and in every execution order that respects the graph the grant runs before the
  registration.
\<close>

theorem registerS3Location_grant_before_registration:
  "(ConstructNode (ident @ ''DataLakeLocation''),
    GrantNode (GrantReadWrite b (fst (snd (registerS3Location scope ident b p m))) p))
     \<in> set (dependencies (fst (registerS3Location scope ident b p m)))
   \<and> GrantReadWrite b (fst (snd (registerS3Location scope ident b p m))) p
       \<in> set (grants (fst (registerS3Location scope ident b p m)))
   \<and> (valid_order (dependencies (fst (registerS3Location scope ident b p m))) []
         (pre @ ConstructNode (ident @ ''DataLakeLocation'') # post)
       \<longrightarrow> GrantNode (GrantReadWrite b (fst (snd (registerS3Location scope ident b p m))) p)
             \<in> set pre)"
proof -
  let ?r = "registerS3Location scope ident b p m"
  let ?loc = "ConstructNode (ident @ ''DataLakeLocation'')"
  let ?g = "GrantReadWrite b (fst (snd ?r)) p"
  have edge: "(?loc, GrantNode ?g) \<in> set (dependencies (fst ?r))"
    by (simp add: registerS3Location_eq)
  have issued: "?g \<in> set (grants (fst ?r))"
    by (simp add: registerS3Location_eq)
  have "GrantNode ?g \<in> set pre"
    if "valid_order (dependencies (fst ?r)) [] (pre @ ?loc # post)"
    using valid_order_prerequisite [OF that edge] by simp
  with edge issued show ?thesis by blast
qed

theorem registerS3Location_grant_before_registration_witness:
  "valid_order (dependencies (fst (registerS3Location scope0 ''Db'' bucket0 ''db'' (Some HYBRID)))) []
     ([ConstructNode ''DbDataAccessRole'',
       GrantNode (GrantReadWrite bucket0 \<lparr>roleArn = ''${DbDataAccessRole.Arn}'', policyMode = Attaches\<rparr> ''db'')]
      @ ConstructNode (''Db'' @ ''DataLakeLocation'') # [])
   \<and> GrantNode (GrantReadWrite bucket0
        (fst (snd (registerS3Location scope0 ''Db'' bucket0 ''db'' (Some HYBRID)))) ''db'')
       \<in> set [ConstructNode ''DbDataAccessRole'',
               GrantNode (GrantReadWrite bucket0 \<lparr>roleArn = ''${DbDataAccessRole.Arn}'', policyMode = Attaches\<rparr> ''db'')]"
proof -
  have order:
    "valid_order (dependencies (fst (registerS3Location scope0 ''Db'' bucket0 ''db'' (Some HYBRID)))) []
       ([ConstructNode ''DbDataAccessRole'',
         GrantNode (GrantReadWrite bucket0 \<lparr>roleArn = ''${DbDataAccessRole.Arn}'', policyMode = Attaches\<rparr> ''db'')]
        @ ConstructNode (''Db'' @ ''DataLakeLocation'') # [])"
    by (simp add: registerS3Location_eq scope0_def attrArn_def)
  from registerS3Location_grant_before_registration
         [of "''Db''" bucket0 scope0 "''db''" "Some HYBRID"
             "[ConstructNode ''DbDataAccessRole'',
               GrantNode (GrantReadWrite bucket0 \<lparr>roleArn = ''${DbDataAccessRole.Arn}'', policyMode = Attaches\<rparr> ''db'')]"
             "[]"] order
  show ?thesis by blast
qed

text \<open>
  C3. For every principal role and every location, the permissions declaration that
  \<open>grantDataLakeLocation\<close> emits has the permission set \<open>{DATA_LOCATION_ACCESS}\<close> and an
  empty grant-option set; it names the role's ARN as principal and the given location as
  resource. The function takes no permission set from its caller.
\<close>

theorem grantDataLakeLocation_permissions:
  "permissions (snd (grantDataLakeLocation scope ident location pr)) = [''DATA_LOCATION_ACCESS'']
   \<and> set (permissions (snd (grantDataLakeLocation scope ident location pr)))
       = {''DATA_LOCATION_ACCESS''}
   \<and> permissionsWithGrantOption (snd (grantDataLakeLocation scope ident location pr)) = []
   \<and> dataLakePrincipalIdentifier
         (dataLakePrincipal (snd (grantDataLakeLocation scope ident location pr))) = roleArn pr
   \<and> s3Resource (dataLocationResource
         (resource (snd (grantDataLakeLocation scope ident location pr)))) = location
   \<and> children (fst (grantDataLakeLocation scope ident location pr))
       = children scope
           @ [(ident, CfnPermissions (snd (grantDataLakeLocation scope ident location pr)))]"
  by (simp add: grantDataLakeLocation_def new_CfnPermissions_def add_child_def)

text \<open>
  C5. For every database name and execution role, the custom resource that
  \<open>removeIamAllowedPrincipal\<close> declares calls \<open>RevokePermissions\<close> of \<open>LakeFormation\<close> on
  creation, with the three parameters \<open>Permissions = ['ALL']\<close>, the principal identifier
  \<open>IAM_ALLOWED_PRINCIPALS\<close>, and a resource that names the one database and nothing else;
  it runs under the execution role supplied.
\<close>

theorem removeIamAllowedPrincipal_revokes_all:
  "service (onCreate (snd (removeIamAllowedPrincipal scope ident database execRole rp)))
     = ''LakeFormation''
   \<and> action (onCreate (snd (removeIamAllowedPrincipal scope ident database execRole rp)))
       = ''RevokePermissions''
   \<and> keys (sdkParameters (onCreate (snd (removeIamAllowedPrincipal scope ident database execRole rp))))
       = [''Permissions'', ''Principal'', ''Resource'']
   \<and> field ''Permissions''
         (sdkParameters (onCreate (snd (removeIamAllowedPrincipal scope ident database execRole rp))))
       = Some (JArray [JString ''ALL''])
   \<and> field ''Principal''
         (sdkParameters (onCreate (snd (removeIamAllowedPrincipal scope ident database execRole rp))))
       = Some (JObject [(''DataLakePrincipalIdentifier'', JString ''IAM_ALLOWED_PRINCIPALS'')])
   \<and> field ''Resource''
         (sdkParameters (onCreate (snd (removeIamAllowedPrincipal scope ident database execRole rp))))
       = Some (JObject [(''Database'', JObject [(''Name'', JString database)])])
   \<and> crRole (snd (removeIamAllowedPrincipal scope ident database execRole rp)) = execRole
   \<and> children (fst (removeIamAllowedPrincipal scope ident database execRole rp))
       = children scope
           @ [(ident, AwsCustomResource
                 (snd (removeIamAllowedPrincipal scope ident database execRole rp)))]"
  by (simp add: removeIamAllowedPrincipal_def new_AwsCustomResource_def add_child_def Let_def)

text \<open>
  C6. \<open>registerS3Location\<close> declares a new access role that the service principal
  \<open>lakeformation.amazonaws.com\<close> can assume, issues one grant and no other, namely read-write
  on the given bucket for that role under the given prefix, and registers the location with
  the role's ARN and with the bucket's ARN for the objects under the prefix as resource ARN.
\<close>

theorem registerS3Location_role_grant_and_arn:
  "fst (snd (registerS3Location scope ident b p m)) = \<lparr>roleArn = attrArn (ident @ ''DataAccessRole''), policyMode = Attaches\<rparr>
   \<and> children (fst (registerS3Location scope ident b p m))
       = children scope
           @ [(ident @ ''DataAccessRole'',
               Role \<lparr>assumedBy = ServicePrincipal ''lakeformation.amazonaws.com''\<rparr>),
              (ident @ ''DataLakeLocation'',
               CfnResource (snd (snd (registerS3Location scope ident b p m))))]
   \<and> grants (fst (registerS3Location scope ident b p m))
       = grants scope @ [GrantReadWrite b (fst (snd (registerS3Location scope ident b p m))) p]
   \<and> locationRoleArn (snd (snd (registerS3Location scope ident b p m)))
       = roleArn (fst (snd (registerS3Location scope ident b p m)))
   \<and> resourceArn (snd (snd (registerS3Location scope ident b p m))) = arnForObjects b p
   \<and> arnForObjects b p = bucketArn b @ ''/'' @ p"
  by (simp add: registerS3Location_eq arnForObjects_def)

text \<open>
  C4. For every principal that is a role with an ARN, a user with an ARN, or a SAML provider
  with a mapped name, \<open>grantLfAdminRole\<close> emits a data-lake-settings declaration whose admin
  list has exactly one entry, the canonical identifier of the principal, with the mutation
  type \<open>APPEND\<close>.
\<close>

theorem grantLfAdminRole_single_admin_append:
  assumes "hasArn pr"
  shows "snd (grantLfAdminRole scope ident pr)
           = Inr \<lparr>admins = [\<lparr>dataLakePrincipalIdentifier = spec_canonicalIdentifier pr\<rparr>],
                  mutationType = ''APPEND'',
                  parameters = Some (JObject [(''CROSS_ACCOUNT_VERSION'', JNumber 4)])\<rparr>
         \<and> children (fst (grantLfAdminRole scope ident pr))
             = children scope
                 @ [(ident, CfnDataLakeSettings
                      \<lparr>admins = [\<lparr>dataLakePrincipalIdentifier = spec_canonicalIdentifier pr\<rparr>],
                       mutationType = ''APPEND'',
                       parameters = Some (JObject [(''CROSS_ACCOUNT_VERSION'', JNumber 4)])\<rparr>)]"
  using assms
  by (cases pr)
     (simp_all add: grantLfAdminRole_def new_CfnDataLakeSettings_def add_child_def truthy_def
        str_def)

theorem grantLfAdminRole_single_admin_append_witness:
  "hasArn (RolePrincipal grantRole0)
   \<and> snd (grantLfAdminRole scope0 ''Admin'' (RolePrincipal grantRole0))
       = Inr \<lparr>admins = [\<lparr>dataLakePrincipalIdentifier = ''arn:aws:iam::111122223333:role/GrantRole''\<rparr>],
              mutationType = ''APPEND'',
              parameters = Some (JObject [(''CROSS_ACCOUNT_VERSION'', JNumber 4)])\<rparr>
   \<and> hasArn (UserPrincipal \<lparr>userArn = ''arn:aws:iam::111122223333:user/ana''\<rparr>)
   \<and> snd (grantLfAdminRole scope0 ''Admin''
          (UserPrincipal \<lparr>userArn = ''arn:aws:iam::111122223333:user/ana''\<rparr>))
       = Inr \<lparr>admins = [\<lparr>dataLakePrincipalIdentifier = ''arn:aws:iam::111122223333:user/ana''\<rparr>],
              mutationType = ''APPEND'',
              parameters = Some (JObject [(''CROSS_ACCOUNT_VERSION'', JNumber 4)])\<rparr>
   \<and> hasArn (SamlPrincipal \<lparr>samlProviderArn = ''arn:aws:iam::111122223333:saml-provider/idp''\<rparr>
               '':user/ana'')
   \<and> snd (grantLfAdminRole scope0 ''Admin''
          (SamlPrincipal \<lparr>samlProviderArn = ''arn:aws:iam::111122223333:saml-provider/idp''\<rparr>
             '':user/ana''))
       = Inr \<lparr>admins = [\<lparr>dataLakePrincipalIdentifier
                          = ''arn:aws:iam::111122223333:saml-provider/idp:user/ana''\<rparr>],
              mutationType = ''APPEND'',
              parameters = Some (JObject [(''CROSS_ACCOUNT_VERSION'', JNumber 4)])\<rparr>"
proof -
  have h1: "hasArn (RolePrincipal grantRole0)"
    by (simp add: grantRole0_def)
  have h2: "hasArn (UserPrincipal \<lparr>userArn = ''arn:aws:iam::111122223333:user/ana''\<rparr>)"
    by simp
  have h3: "hasArn (SamlPrincipal
              \<lparr>samlProviderArn = ''arn:aws:iam::111122223333:saml-provider/idp''\<rparr> '':user/ana'')"
    by simp
  from grantLfAdminRole_single_admin_append [OF h1, of scope0 "''Admin''"]
       grantLfAdminRole_single_admin_append [OF h2, of scope0 "''Admin''"]
       grantLfAdminRole_single_admin_append [OF h3, of scope0 "''Admin''"]
       h1 h2 h3
  show ?thesis by (simp add: grantRole0_def)
qed

lemma authorizerEnvironmentWorkflowSetup_Some:
  assumes "role grantFunction = Some grantRole"
  shows "authorizerEnvironmentWorkflowSetup scope authorizerName grantFunction centralAccount =
     (let central =
            \<lparr>roleArn = Arn_format
               \<lparr>arnPartition = None, arnService = ''iam'', arnRegion = None,
                arnAccount = centralAccount, arnResource = ''role'',
                arnResourceName = Some (authorizerName @ ''Role'')\<rparr> (stack scope),
             policyMode = Refuses\<rparr>
      in (scope\<lparr>children := children scope @
                  [(''CentraRole'',
                    ImportedRole (roleArn central)
                      \<lparr>mutable = False, addGrantsToResources = True\<rparr>)],
                grants := grants scope @ [GrantInvoke grantFunction central]\<rparr>,
          Inr \<lparr>lambdaInvokeGrant =
                 \<lparr>options = GrantInvoke grantFunction central, success = True\<rparr>,
               assumeRoleGrant =
                 \<lparr>options = GrantAssumeRole grantRole central, success = False\<rparr>\<rparr>))"
  using assms
  unfolding authorizerEnvironmentWorkflowSetup_def Role_fromRoleArn_def grantInvoke_def
    grantAssumeRole_def Grant_addToPrincipal_def Grant_addToPrincipalOrResource_def
    add_child_def Stack_of_def
  by (simp add: Let_def)

lemma authorizerEnvironmentWorkflowSetup_None:
  assumes "role grantFunction = None"
  shows "authorizerEnvironmentWorkflowSetup scope authorizerName grantFunction centralAccount =
     (scope\<lparr>children := children scope @
               [(''CentraRole'',
                 ImportedRole
                   (Arn_format
                      \<lparr>arnPartition = None, arnService = ''iam'', arnRegion = None,
                       arnAccount = centralAccount, arnResource = ''role'',
                       arnResourceName = Some (authorizerName @ ''Role'')\<rparr> (stack scope))
                   \<lparr>mutable = False, addGrantsToResources = True\<rparr>)]\<rparr>,
      Inl (Error ''grantFunction.role is undefined''))"
  using assms
  unfolding authorizerEnvironmentWorkflowSetup_def Role_fromRoleArn_def add_child_def Stack_of_def
  by (simp add: Let_def)

lemma role_grantFunction0: "role grantFunction0 = Some grantRole0"
  by (simp add: grantFunction0_def)

lemma role_roleless0: "role roleless0 = None"
  by (simp add: roleless0_def)

text \<open>
  C7, as stated, fails: the ARN of the role that both grants name is not made of the central
  account identifier and the role name alone. For the same account and the same authorizer
  name, scopes whose stacks differ in the region only, or in the partition only, give
  different ARNs.
\<close>

theorem authorizerEnvironmentWorkflowSetup_arn_stack_counterexample:
  "scope1 = scope0\<lparr>stack := (stack scope0)\<lparr>stackRegion := ''us-east-1''\<rparr>\<rparr>
   \<and> scope2 = scope0\<lparr>stack := (stack scope0)\<lparr>stackPartition := ''aws-cn''\<rparr>\<rparr>
   \<and> snd (authorizerEnvironmentWorkflowSetup scope0 ''MskAuthorizer'' grantFunction0
           (Some ''123456789012''))
       = Inr \<lparr>lambdaInvokeGrant =
                \<lparr>options = GrantInvoke grantFunction0
                   \<lparr>roleArn = ''arn:aws:iam:eu-west-1:123456789012:role/MskAuthorizerRole'',
                    policyMode = Refuses\<rparr>,
                 success = True\<rparr>,
              assumeRoleGrant =
                \<lparr>options = GrantAssumeRole grantRole0
                   \<lparr>roleArn = ''arn:aws:iam:eu-west-1:123456789012:role/MskAuthorizerRole'',
                    policyMode = Refuses\<rparr>,
                 success = False\<rparr>\<rparr>
   \<and> snd (authorizerEnvironmentWorkflowSetup scope1 ''MskAuthorizer'' grantFunction0
           (Some ''123456789012''))
       = Inr \<lparr>lambdaInvokeGrant =
                \<lparr>options = GrantInvoke grantFunction0
                   \<lparr>roleArn = ''arn:aws:iam:us-east-1:123456789012:role/MskAuthorizerRole'',
                    policyMode = Refuses\<rparr>,
                 success = True\<rparr>,
              assumeRoleGrant =
                \<lparr>options = GrantAssumeRole grantRole0
                   \<lparr>roleArn = ''arn:aws:iam:us-east-1:123456789012:role/MskAuthorizerRole'',
                    policyMode = Refuses\<rparr>,
                 success = False\<rparr>\<rparr>
   \<and> snd (authorizerEnvironmentWorkflowSetup scope2 ''MskAuthorizer'' grantFunction0
           (Some ''123456789012''))
       = Inr \<lparr>lambdaInvokeGrant =
                \<lparr>options = GrantInvoke grantFunction0
                   \<lparr>roleArn = ''arn:aws-cn:iam:eu-west-1:123456789012:role/MskAuthorizerRole'',
                    policyMode = Refuses\<rparr>,
                 success = True\<rparr>,
              assumeRoleGrant =
                \<lparr>options = GrantAssumeRole grantRole0
                   \<lparr>roleArn = ''arn:aws-cn:iam:eu-west-1:123456789012:role/MskAuthorizerRole'',
                    policyMode = Refuses\<rparr>,
                 success = False\<rparr>\<rparr>
   \<and> ''arn:aws:iam:eu-west-1:123456789012:role/MskAuthorizerRole''
       \<noteq> ''arn:aws:iam:us-east-1:123456789012:role/MskAuthorizerRole''
   \<and> ''arn:aws:iam:eu-west-1:123456789012:role/MskAuthorizerRole''
       \<noteq> ''arn:aws-cn:iam:eu-west-1:123456789012:role/MskAuthorizerRole''"
proof -
  have "scope1 = scope0\<lparr>stack := (stack scope0)\<lparr>stackRegion := ''us-east-1''\<rparr>\<rparr>"
    by (simp add: scope0_def scope1_def)
  moreover
  have "scope2 = scope0\<lparr>stack := (stack scope0)\<lparr>stackPartition := ''aws-cn''\<rparr>\<rparr>"
    by (simp add: scope0_def scope2_def)
  moreover
  have "snd (authorizerEnvironmentWorkflowSetup scope0 ''MskAuthorizer'' grantFunction0
           (Some ''123456789012''))
       = Inr \<lparr>lambdaInvokeGrant =
                \<lparr>options = GrantInvoke grantFunction0
                   \<lparr>roleArn = ''arn:aws:iam:eu-west-1:123456789012:role/MskAuthorizerRole'',
                    policyMode = Refuses\<rparr>,
                 success = True\<rparr>,
              assumeRoleGrant =
                \<lparr>options = GrantAssumeRole grantRole0
                   \<lparr>roleArn = ''arn:aws:iam:eu-west-1:123456789012:role/MskAuthorizerRole'',
                    policyMode = Refuses\<rparr>,
                 success = False\<rparr>\<rparr>"
    by (simp add: authorizerEnvironmentWorkflowSetup_Some [OF role_grantFunction0] Let_def
          Arn_format_def orElse_def scope0_def)
  moreover
  have "snd (authorizerEnvironmentWorkflowSetup scope1 ''MskAuthorizer'' grantFunction0
           (Some ''123456789012''))
       = Inr \<lparr>lambdaInvokeGrant =
                \<lparr>options = GrantInvoke grantFunction0
                   \<lparr>roleArn = ''arn:aws:iam:us-east-1:123456789012:role/MskAuthorizerRole'',
                    policyMode = Refuses\<rparr>,
                 success = True\<rparr>,
              assumeRoleGrant =
                \<lparr>options = GrantAssumeRole grantRole0
                   \<lparr>roleArn = ''arn:aws:iam:us-east-1:123456789012:role/MskAuthorizerRole'',
                    policyMode = Refuses\<rparr>,
                 success = False\<rparr>\<rparr>"
    by (simp add: authorizerEnvironmentWorkflowSetup_Some [OF role_grantFunction0] Let_def
          Arn_format_def orElse_def scope1_def)
  moreover
  have "snd (authorizerEnvironmentWorkflowSetup scope2 ''MskAuthorizer'' grantFunction0
           (Some ''123456789012''))
       = Inr \<lparr>lambdaInvokeGrant =
                \<lparr>options = GrantInvoke grantFunction0
                   \<lparr>roleArn = ''arn:aws-cn:iam:eu-west-1:123456789012:role/MskAuthorizerRole'',
                    policyMode = Refuses\<rparr>,
                 success = True\<rparr>,
              assumeRoleGrant =
                \<lparr>options = GrantAssumeRole grantRole0
                   \<lparr>roleArn = ''arn:aws-cn:iam:eu-west-1:123456789012:role/MskAuthorizerRole'',
                    policyMode = Refuses\<rparr>,
                 success = False\<rparr>\<rparr>"
    by (simp add: authorizerEnvironmentWorkflowSetup_Some [OF role_grantFunction0] Let_def
          Arn_format_def orElse_def scope2_def)
  moreover
  have "''arn:aws:iam:eu-west-1:123456789012:role/MskAuthorizerRole''
       \<noteq> ''arn:aws:iam:us-east-1:123456789012:role/MskAuthorizerRole''"
    by simp
  moreover
  have "''arn:aws:iam:eu-west-1:123456789012:role/MskAuthorizerRole''
       \<noteq> ''arn:aws-cn:iam:eu-west-1:123456789012:role/MskAuthorizerRole''"
    by simp
  ultimately show ?thesis by blast
qed

text \<open>
  C7, amended. For every authorizer name and central account identifier, when the grant
  function has a role, \<open>authorizerEnvironmentWorkflowSetup\<close> returns one lambda-invoke
  grant and one assume-role grant, both requested for the same grantee, the role it imports
  under the id \<open>CentraRole\<close>. The lambda-invoke grant has succeeded and is the only
  lambda-invoke grant the call adds. The ARN of the grantee names the service \<open>iam\<close>, the
  central account identifier and the role \<open>{authorizerName}Role\<close>, in the partition of the
  stack of the scope. The theorem says nothing about the region field of the ARN, nor about
  whether the assume-role grant has succeeded.
\<close>

theorem authorizerEnvironmentWorkflowSetup_one_pair_same_grantee:
  assumes "role grantFunction = Some grantRole"
  shows "\<exists>central region w.
           snd (authorizerEnvironmentWorkflowSetup scope authorizerName grantFunction
                  (Some centralAccount)) = Inr w
         \<and> options (lambdaInvokeGrant w) = GrantInvoke grantFunction central
         \<and> options (assumeRoleGrant w) = GrantAssumeRole grantRole central
         \<and> grantee (options (lambdaInvokeGrant w)) = grantee (options (assumeRoleGrant w))
         \<and> success (lambdaInvokeGrant w)
         \<and> filter isInvokeGrant
              (newGrants scope
                 (fst (authorizerEnvironmentWorkflowSetup scope authorizerName grantFunction
                         (Some centralAccount))))
             = [GrantInvoke grantFunction central]
         \<and> children
              (fst (authorizerEnvironmentWorkflowSetup scope authorizerName grantFunction
                      (Some centralAccount)))
             = children scope
                 @ [(''CentraRole'',
                     ImportedRole (roleArn central)
                       \<lparr>mutable = False, addGrantsToResources = True\<rparr>)]
         \<and> roleArn central
             = ''arn:'' @ stackPartition (Stack_of scope) @ '':iam:'' @ region @ '':''
                 @ centralAccount @ '':role/'' @ authorizerName @ ''Role''"
proof -
  let ?central =
    "\<lparr>roleArn = Arn_format
        \<lparr>arnPartition = None, arnService = ''iam'', arnRegion = None,
         arnAccount = Some centralAccount, arnResource = ''role'',
         arnResourceName = Some (authorizerName @ ''Role'')\<rparr> (stack scope),
      policyMode = Refuses\<rparr>"
  let ?w =
    "\<lparr>lambdaInvokeGrant = \<lparr>options = GrantInvoke grantFunction ?central, success = True\<rparr>,
      assumeRoleGrant = \<lparr>options = GrantAssumeRole grantRole ?central, success = False\<rparr>\<rparr>"
  have "snd (authorizerEnvironmentWorkflowSetup scope authorizerName grantFunction
               (Some centralAccount)) = Inr ?w"
    by (simp add: authorizerEnvironmentWorkflowSetup_Some [OF assms] Let_def)
  moreover have
    "filter isInvokeGrant
       (newGrants scope
          (fst (authorizerEnvironmentWorkflowSetup scope authorizerName grantFunction
                  (Some centralAccount))))
      = [GrantInvoke grantFunction ?central]"
    by (simp add: authorizerEnvironmentWorkflowSetup_Some [OF assms] Let_def newGrants_def)
  moreover have
    "children
       (fst (authorizerEnvironmentWorkflowSetup scope authorizerName grantFunction
               (Some centralAccount)))
      = children scope
          @ [(''CentraRole'',
              ImportedRole (roleArn ?central) \<lparr>mutable = False, addGrantsToResources = True\<rparr>)]"
    by (simp add: authorizerEnvironmentWorkflowSetup_Some [OF assms] Let_def)
  moreover have
    "roleArn ?central
      = ''arn:'' @ stackPartition (Stack_of scope) @ '':iam:'' @ stackRegion (Stack_of scope)
          @ '':'' @ centralAccount @ '':role/'' @ authorizerName @ ''Role''"
    by (simp add: Arn_format_def orElse_def Stack_of_def)
  ultimately show ?thesis
    by (intro exI [of _ ?central] exI [of _ "stackRegion (Stack_of scope)"] exI [of _ ?w]) simp
qed

theorem authorizerEnvironmentWorkflowSetup_one_pair_same_grantee_witness:
  "role grantFunction0 = Some grantRole0
   \<and> (\<exists>central region w.
           snd (authorizerEnvironmentWorkflowSetup scope0 ''MskAuthorizer'' grantFunction0
                  (Some ''123456789012'')) = Inr w
         \<and> options (lambdaInvokeGrant w) = GrantInvoke grantFunction0 central
         \<and> options (assumeRoleGrant w) = GrantAssumeRole grantRole0 central
         \<and> grantee (options (lambdaInvokeGrant w)) = grantee (options (assumeRoleGrant w))
         \<and> success (lambdaInvokeGrant w)
         \<and> filter isInvokeGrant
              (newGrants scope0
                 (fst (authorizerEnvironmentWorkflowSetup scope0 ''MskAuthorizer'' grantFunction0
                         (Some ''123456789012''))))
             = [GrantInvoke grantFunction0 central]
         \<and> roleArn central
             = ''arn:'' @ ''aws'' @ '':iam:'' @ region @ '':'' @ ''123456789012'' @ '':role/''
                 @ ''MskAuthorizer'' @ ''Role'')"
proof -
  have p: "stackPartition (Stack_of scope0) = ''aws''"
    by (simp add: Stack_of_def scope0_def)
  from authorizerEnvironmentWorkflowSetup_one_pair_same_grantee
         [OF role_grantFunction0, of scope0 "''MskAuthorizer''" "''123456789012''"]
  show ?thesis unfolding p using role_grantFunction0 by blast
qed

text \<open>
  C8. Without a role on the grant function, \<open>authorizerEnvironmentWorkflowSetup\<close> fails
  with the missing-role error and adds no grant. With a role it returns, and the
  lambda-invoke grant it returns has succeeded while the assume-role grant has not: the
  grantee was imported with \<open>mutable: false\<close> and \<open>addGrantsToResources: true\<close>, so it
  takes no statement, and \<open>grantAssumeRole\<close> has no resource policy to fall back on. The
  only grant the call adds is the lambda-invoke grant.
\<close>

theorem authorizerEnvironmentWorkflowSetup_assume_role_not_established:
  "snd (authorizerEnvironmentWorkflowSetup scope0 ''MskAuthorizer'' roleless0
          (Some ''123456789012'')) = Inl MissingRoleError
   \<and> newGrants scope0
        (fst (authorizerEnvironmentWorkflowSetup scope0 ''MskAuthorizer'' roleless0
                (Some ''123456789012''))) = []
   \<and> snd (authorizerEnvironmentWorkflowSetup scope0 ''MskAuthorizer'' grantFunction0
           (Some ''123456789012''))
       = Inr \<lparr>lambdaInvokeGrant =
                \<lparr>options = GrantInvoke grantFunction0
                   \<lparr>roleArn = ''arn:aws:iam:eu-west-1:123456789012:role/MskAuthorizerRole'',
                    policyMode = Refuses\<rparr>,
                 success = True\<rparr>,
              assumeRoleGrant =
                \<lparr>options = GrantAssumeRole grantRole0
                   \<lparr>roleArn = ''arn:aws:iam:eu-west-1:123456789012:role/MskAuthorizerRole'',
                    policyMode = Refuses\<rparr>,
                 success = False\<rparr>\<rparr>
   \<and> newGrants scope0
        (fst (authorizerEnvironmentWorkflowSetup scope0 ''MskAuthorizer'' grantFunction0
                (Some ''123456789012'')))
       = [GrantInvoke grantFunction0
            \<lparr>roleArn = ''arn:aws:iam:eu-west-1:123456789012:role/MskAuthorizerRole'',
             policyMode = Refuses\<rparr>]"
  by (simp add: authorizerEnvironmentWorkflowSetup_Some [OF role_grantFunction0]
        authorizerEnvironmentWorkflowSetup_None [OF role_roleless0] MissingRoleError_def
        Let_def newGrants_def Arn_format_def orElse_def scope0_def)

text \<open>
  C9, as stated, fails: the access mode of \<open>registerS3Location\<close> is optional, and with no
  model given, which is none of \<open>IAM\<close>, \<open>HYBRID\<close> and \<open>LAKE_FORMATION\<close>, the function
  raises nothing; it returns the access role and the location and declares both.
\<close>

theorem registerS3Location_absent_model_counterexample:
  "(None :: PermissionModel option) \<notin> {Some IAM, Some HYBRID, Some LAKE_FORMATION}
   \<and> snd (registerS3Location scope0 ''Db'' bucket0 ''db'' None)
       = (\<lparr>roleArn = ''${DbDataAccessRole.Arn}'', policyMode = Attaches\<rparr>,
          \<lparr>hybridAccessEnabled = False, useServiceLinkedRole = False,
           locationRoleArn = ''${DbDataAccessRole.Arn}'',
           resourceArn = ''arn:aws:s3:::lake/db''\<rparr>)
   \<and> children (fst (registerS3Location scope0 ''Db'' bucket0 ''db'' None))
       = [(''DbDataAccessRole'',
           Role \<lparr>assumedBy = ServicePrincipal ''lakeformation.amazonaws.com''\<rparr>),
          (''DbDataLakeLocation'',
           CfnResource
             \<lparr>hybridAccessEnabled = False, useServiceLinkedRole = False,
              locationRoleArn = ''${DbDataAccessRole.Arn}'',
              resourceArn = ''arn:aws:s3:::lake/db''\<rparr>)]"
  by (simp add: registerS3Location_eq scope0_def bucket0_def attrArn_def arnForObjects_def)

text \<open>
  C9, amended. \<open>registerS3Location\<close> has no failing path. For every scope, id, bucket and
  prefix, when no permission model is given it proceeds: it returns the access role and the
  location, registered with hybrid access disabled, and the location is declared under the
  scope.
\<close>

theorem registerS3Location_absent_model_proceeds:
  "snd (registerS3Location scope ident b p None)
     = (\<lparr>roleArn = attrArn (ident @ ''DataAccessRole''), policyMode = Attaches\<rparr>,
        \<lparr>hybridAccessEnabled = False, useServiceLinkedRole = False,
         locationRoleArn = attrArn (ident @ ''DataAccessRole''),
         resourceArn = arnForObjects b p\<rparr>)
   \<and> (ident @ ''DataLakeLocation'',
        CfnResource
          \<lparr>hybridAccessEnabled = False, useServiceLinkedRole = False,
           locationRoleArn = attrArn (ident @ ''DataAccessRole''),
           resourceArn = arnForObjects b p\<rparr>)
       \<in> set (children (fst (registerS3Location scope ident b p None)))"
  by (simp add: registerS3Location_eq)

lemma grantLfAdminRole_result:
  "snd (grantLfAdminRole scope ident pr)
     = (if hasArn pr
        then Inr \<lparr>admins = [\<lparr>dataLakePrincipalIdentifier = spec_canonicalIdentifier pr\<rparr>],
                  mutationType = ''APPEND'',
                  parameters = Some (JObject [(''CROSS_ACCOUNT_VERSION'', JNumber 4)])\<rparr>
        else Inl (TypeError
               ''Cannot read properties of undefined (reading 'samlProviderArn')''))"
  by (cases pr)
     (simp_all add: grantLfAdminRole_def new_CfnDataLakeSettings_def add_child_def truthy_def
        str_def)

lemma grantLfAdminRole_cdk_result:
  "snd (grantLfAdminRole_cdk scope ident pr)
     = (if hasArn pr
        then Inr \<lparr>admins = [\<lparr>dataLakePrincipalIdentifier = spec_canonicalIdentifier pr\<rparr>],
                  mutationType = ''APPEND'', parameters = None\<rparr>
        else Inl (TypeError
               ''Cannot read properties of undefined (reading 'samlProviderArn')''))"
  by (cases pr)
     (simp_all add: grantLfAdminRole_cdk_def new_CfnDataLakeSettings_def add_child_def
        truthy_def str_def)

lemma grantLfAdminRole_scope:
  "fst (grantLfAdminRole scope ident pr)
     = (if hasArn pr
        then scope\<lparr>children := children scope @
               [(ident, CfnDataLakeSettings
                   \<lparr>admins = [\<lparr>dataLakePrincipalIdentifier = spec_canonicalIdentifier pr\<rparr>],
                    mutationType = ''APPEND'',
                    parameters = Some (JObject [(''CROSS_ACCOUNT_VERSION'', JNumber 4)])\<rparr>)]\<rparr>
        else scope)"
  by (cases pr)
     (simp_all add: grantLfAdminRole_def new_CfnDataLakeSettings_def add_child_def truthy_def
        str_def)

lemma grantLfAdminRole_cdk_scope:
  "fst (grantLfAdminRole_cdk scope ident pr)
     = (if hasArn pr
        then scope\<lparr>children := children scope @
               [(ident, CfnDataLakeSettings
                   \<lparr>admins = [\<lparr>dataLakePrincipalIdentifier = spec_canonicalIdentifier pr\<rparr>],
                    mutationType = ''APPEND'', parameters = None\<rparr>)]\<rparr>
        else scope)"
  by (cases pr)
     (simp_all add: grantLfAdminRole_cdk_def new_CfnDataLakeSettings_def add_child_def
        truthy_def str_def)

text \<open>
  C10. The two definitions of \<open>grantLfAdminRole\<close> agree on every principal. Both resolve a
  role or a user that has an ARN, and a SAML provider with a mapped name, to the canonical
  identifier, and emit the admin list with that one entry and the mutation type \<open>APPEND\<close>;
  on a role or user without an ARN both fail with the same error. The output of the one is
  the output of the other with the parameters field set to \<open>CROSS_ACCOUNT_VERSION = 4\<close>,
  a field the other leaves unset. Each declares under the scope, with the id given, the
  settings it returns, and declares nothing when it fails.
\<close>

theorem grantLfAdminRole_variants_agree:
  "snd (grantLfAdminRole scope ident pr)
     = map_sum id
         (\<lambda>s. s\<lparr>parameters := Some (JObject [(''CROSS_ACCOUNT_VERSION'', JNumber 4)])\<rparr>)
         (snd (grantLfAdminRole_cdk scope ident pr))
   \<and> snd (grantLfAdminRole_cdk scope ident pr)
       = (if hasArn pr
          then Inr \<lparr>admins = [\<lparr>dataLakePrincipalIdentifier = spec_canonicalIdentifier pr\<rparr>],
                    mutationType = ''APPEND'', parameters = None\<rparr>
          else Inl (TypeError
                 ''Cannot read properties of undefined (reading 'samlProviderArn')''))
   \<and> (case (snd (grantLfAdminRole_cdk scope ident pr), snd (grantLfAdminRole scope ident pr)) of
         (Inr a, Inr b) \<Rightarrow>
           admins a = admins b \<and> length (admins a) = 1
           \<and> mutationType a = ''APPEND'' \<and> mutationType b = ''APPEND''
           \<and> parameters a = None
           \<and> parameters b = Some (JObject [(''CROSS_ACCOUNT_VERSION'', JNumber 4)])
       | (Inl e, Inl e') \<Rightarrow> e = e'
       | _ \<Rightarrow> False)
   \<and> fst (grantLfAdminRole_cdk scope ident pr)
       = (if hasArn pr
          then scope\<lparr>children := children scope @
                 [(ident, CfnDataLakeSettings
                     \<lparr>admins = [\<lparr>dataLakePrincipalIdentifier = spec_canonicalIdentifier pr\<rparr>],
                      mutationType = ''APPEND'', parameters = None\<rparr>)]\<rparr>
          else scope)
   \<and> fst (grantLfAdminRole scope ident pr)
       = (if hasArn pr
          then scope\<lparr>children := children scope @
                 [(ident, CfnDataLakeSettings
                     \<lparr>admins = [\<lparr>dataLakePrincipalIdentifier = spec_canonicalIdentifier pr\<rparr>],
                      mutationType = ''APPEND'',
                      parameters =
                        Some (JObject [(''CROSS_ACCOUNT_VERSION'', JNumber 4)])\<rparr>)]\<rparr>
          else scope)"
  by (simp add: grantLfAdminRole_result grantLfAdminRole_cdk_result grantLfAdminRole_scope
        grantLfAdminRole_cdk_scope)

theorem grantLfAdminRole_variants_agree_witness:
  "snd (grantLfAdminRole_cdk scope0 ''Admin'' (RolePrincipal grantRole0))
     = Inr \<lparr>admins = [\<lparr>dataLakePrincipalIdentifier = ''arn:aws:iam::111122223333:role/GrantRole''\<rparr>],
            mutationType = ''APPEND'', parameters = None\<rparr>
   \<and> snd (grantLfAdminRole scope0 ''Admin'' (RolePrincipal grantRole0))
       = Inr \<lparr>admins = [\<lparr>dataLakePrincipalIdentifier = ''arn:aws:iam::111122223333:role/GrantRole''\<rparr>],
              mutationType = ''APPEND'',
              parameters = Some (JObject [(''CROSS_ACCOUNT_VERSION'', JNumber 4)])\<rparr>
   \<and> children (fst (grantLfAdminRole_cdk scope0 ''Admin'' (RolePrincipal grantRole0)))
       = [(''Admin'', CfnDataLakeSettings
             \<lparr>admins = [\<lparr>dataLakePrincipalIdentifier
                           = ''arn:aws:iam::111122223333:role/GrantRole''\<rparr>],
              mutationType = ''APPEND'', parameters = None\<rparr>)]"
proof -
  have h: "hasArn (RolePrincipal grantRole0)"
    by (simp add: grantRole0_def)
  have c: "spec_canonicalIdentifier (RolePrincipal grantRole0)
             = ''arn:aws:iam::111122223333:role/GrantRole''"
    by (simp add: grantRole0_def)
  from grantLfAdminRole_variants_agree [of scope0 "''Admin''" "RolePrincipal grantRole0"]
  have "snd (grantLfAdminRole scope0 ''Admin'' (RolePrincipal grantRole0))
          = map_sum id
              (\<lambda>s. s\<lparr>parameters := Some (JObject [(''CROSS_ACCOUNT_VERSION'', JNumber 4)])\<rparr>)
              (snd (grantLfAdminRole_cdk scope0 ''Admin'' (RolePrincipal grantRole0)))"
    and "snd (grantLfAdminRole_cdk scope0 ''Admin'' (RolePrincipal grantRole0))
          = Inr \<lparr>admins = [\<lparr>dataLakePrincipalIdentifier
                               = ''arn:aws:iam::111122223333:role/GrantRole''\<rparr>],
                 mutationType = ''APPEND'', parameters = None\<rparr>"
    and "fst (grantLfAdminRole_cdk scope0 ''Admin'' (RolePrincipal grantRole0))
          = scope0\<lparr>children := children scope0 @
              [(''Admin'', CfnDataLakeSettings
                  \<lparr>admins = [\<lparr>dataLakePrincipalIdentifier
                                = ''arn:aws:iam::111122223333:role/GrantRole''\<rparr>],
                   mutationType = ''APPEND'', parameters = None\<rparr>)]\<rparr>"
    unfolding if_P [OF h] c by blast+
  then show ?thesis by (simp add: scope0_def)
qed

end
